theory Spec2Isabelle
  imports Main "HOL-Library.Word"
begin

section \<open>The PixShop editor: edit history, masks, crop and output size\<close>

text \<open>
  The editor is one React component (\<open>App\<close>) whose \<open>useState\<close> cells and element
  references form the controller state, and whose \<open>handle...\<close> callbacks are the
  operations. Each callback is embedded as a function from the state in which it was
  invoked to the state after all its \<open>set...\<close> calls have been applied; where it
  sets an error message, that state also has the editor replaced by the error dialog
  (see \<open>setError\<close>). Whatever the
  browser or the network contributes (the resampling filter of \<open>drawImage\<close>, the
  generation service, the rasterised crop) is a parameter of the callback that uses it.
  Presentation-only cells (loading message, comparison toggle, panel flags, brush size)
  are left out.
\<close>

subsection \<open>Data\<close>

type_synonym byte = "8 word"

text \<open>
  A JavaScript string is the sequence of its UTF-16 code units. The instruction texts
  (prompts) are arbitrary strings typed by the user and are kept in this form.
\<close>

type_synonym js_string = "16 word list"

datatype tab = Retouch | Adjust | Filters | Crop

text \<open>\<open>HistoryItem['type']\<close> is \<open>Exclude<Tab, 'crop'>\<close>.\<close>

datatype item_type = ItemRetouch | ItemAdjust | ItemFilters

datatype history_item = HistoryItem item_type js_string

text \<open>
  An HTML canvas: its backing-store size and its RGBA samples, row by row, four bytes
  per pixel, as \<open>getImageData(0, 0, width, height).data\<close> returns them.
\<close>

record canvas =
  cwidth :: nat
  cheight :: nat
  cdata :: "byte list"

text \<open>The \<open>img\<close> element behind \<open>imgRef\<close>: intrinsic and displayed size.\<close>

record img_element =
  naturalWidth :: nat
  naturalHeight :: nat
  imgWidth :: nat
  imgHeight :: nat

text \<open>\<open>PixelCrop\<close> of react-image-crop, in displayed-image pixels.\<close>

record pixel_crop =
  crop_x :: int
  crop_y :: int
  crop_width :: int
  crop_height :: int

text \<open>The \<open>outputSize\<close> cell holds \<open>{ width, height }\<close> or \<open>null\<close>.\<close>

record output_size =
  width :: int
  height :: int

text \<open>
  A mask handed to the generation service is the PNG encoding of the temporary canvas;
  PNG is lossless, so the file is identified with the canvas it encodes.
\<close>

type_synonym mask_file = canvas

datatype 'f request =
    EditRequest 'f mask_file "mask_file option" js_string output_size
  | FilterRequest 'f js_string output_size
  | AdjustRequest 'f js_string output_size

text \<open>
  The generation service answers a request with the new image file, or throws an
  \<open>Error\<close> with a message.
\<close>

type_synonym 'f service = "'f request \<Rightarrow> string + 'f"

text \<open>Exceptions that can be thrown inside the \<open>try\<close> block of \<open>handleGenerate\<close>.\<close>

datatype exn =
    ImageElementNotFound
  | NoTempCanvasContext
  | InvalidStateError
  | IndexSizeError
  | ServiceError string

text \<open>The messages passed to \<open>setError\<close>, one constructor per message.\<close>

datatype app_error =
    NoImageToEdit
  | EmptyInstruction
  | EditMaskNotPainted
  | OutputSizeUnset
  | EditMaskEmpty
  | GenerateFailed exn
  | NoImageForFilter
  | FilterFailed string
  | NoImageForAdjustment
  | AdjustmentFailed string
  | NoCropSelected
  | CropContextFailed
  | ImageDimensionsFailed
  | ResizeFailed

text \<open>
  The controller state. \<open>serviceCalls\<close> is the trace of requests sent to the generation
  service; it is not a cell of the component but records the network effect of the
  callbacks.
\<close>

record 'f app =
  history :: "'f list"
  historyIndex :: int
  prompt :: js_string
  isLoading :: bool
  error :: "app_error option"
  activeTab :: tab
  crop :: "pixel_crop option"
  completedCrop :: "pixel_crop option"
  outputSize :: "output_size option"
  isSizeWarningModalOpen :: bool
  fileToProcess :: "'f option"
  imgRef :: "img_element option"
  editMaskCanvasRef :: "canvas option"
  preserveMaskCanvasRef :: "canvas option"
  hasEditMask :: bool
  hasPreserveMask :: bool
  promptHistory :: "history_item list"
  customAdjustmentPrompt :: js_string
  customFilterPrompt :: js_string
  serviceCalls :: "'f request list"

definition MAX_IMAGE_DIMENSION :: int where
  "MAX_IMAGE_DIMENSION = 2048"

text \<open>The state of a freshly mounted component: the initial value of every cell.\<close>

definition initial_app :: "'f app" where
  "initial_app =
     \<lparr>history = [], historyIndex = - 1, prompt = [], isLoading = False, error = None,
      activeTab = Retouch, crop = None, completedCrop = None, outputSize = None,
      isSizeWarningModalOpen = False, fileToProcess = None, imgRef = None,
      editMaskCanvasRef = None, preserveMaskCanvasRef = None,
      hasEditMask = False, hasPreserveMask = False, promptHistory = [],
      customAdjustmentPrompt = [], customFilterPrompt = [], serviceCalls = []\<rparr>"

subsection \<open>The version history\<close>

text \<open>
  \<open>xs.slice(0, e)\<close>: a negative end counts from the end of the array, and the end is
  clamped to the array.
\<close>

definition slice0 :: "'a list \<Rightarrow> int \<Rightarrow> 'a list" where
  "slice0 xs e =
     (let n = int (length xs);
          k = (if e < 0 then max (n + e) 0 else min e n)
      in take (nat k) xs)"

text \<open>\<open>history[historyIndex] ?? null\<close>: an index outside the array reads \<open>undefined\<close>.\<close>

definition currentImage :: "'f app \<Rightarrow> 'f option" where
  "currentImage s =
     (if 0 \<le> historyIndex s \<and> historyIndex s < int (length (history s))
      then Some (history s ! nat (historyIndex s)) else None)"

definition originalImage :: "'f app \<Rightarrow> 'f option" where
  "originalImage s = (case history s of [] \<Rightarrow> None | f # _ \<Rightarrow> Some f)"

definition canUndo :: "'f app \<Rightarrow> bool" where
  "canUndo s = (historyIndex s > 0)"

definition canRedo :: "'f app \<Rightarrow> bool" where
  "canRedo s = (historyIndex s < int (length (history s)) - 1)"

definition addImageToHistory :: "'f \<Rightarrow> 'f app \<Rightarrow> 'f app" where
  "addImageToHistory newImageFile s =
     (let newHistory = slice0 (history s) (historyIndex s + 1) @ [newImageFile]
      in s\<lparr>history := newHistory,
           historyIndex := int (length newHistory) - 1,
           crop := None,
           completedCrop := None\<rparr>)"

definition addPromptToHistory :: "item_type \<Rightarrow> js_string \<Rightarrow> 'f app \<Rightarrow> 'f app" where
  "addPromptToHistory ty p s = s\<lparr>promptHistory := promptHistory s @ [HistoryItem ty p]\<rparr>"

subsection \<open>Mask layers\<close>

text \<open>\<open>ctx.clearRect(0, 0, canvas.width, canvas.height)\<close>: every sample becomes 0.\<close>

definition clearRect_all :: "canvas \<Rightarrow> canvas" where
  "clearRect_all c = c\<lparr>cdata := replicate (4 * cwidth c * cheight c) 0\<rparr>"

text \<open>
  \<open>clearMasks\<close> clears each canvas that is mounted (the references are \<open>null\<close> while
  the retouch tab is not shown) and resets both content flags.
\<close>

definition clearMasks :: "'f app \<Rightarrow> 'f app" where
  "clearMasks s =
     s\<lparr>editMaskCanvasRef := map_option clearRect_all (editMaskCanvasRef s),
       preserveMaskCanvasRef := map_option clearRect_all (preserveMaskCanvasRef s),
       hasEditMask := False,
       hasPreserveMask := False\<rparr>"

subsection \<open>Showing an error\<close>

text \<open>
  \<open>setError(message)\<close> with a message. \<open>renderContent\<close> begins with
  \<open>if (error) return <ErrorModal ...>\<close>: as soon as the error cell is non-null the
  error dialog is rendered in place of the editor, so the image element and both mask
  canvases are unmounted, their references become \<open>null\<close> and the bitmaps painted
  on the canvases are gone. \<open>setError(null)\<close> is written as the update
  \<open>error := None\<close>.
\<close>

definition setError :: "app_error \<Rightarrow> 'f app \<Rightarrow> 'f app" where
  "setError message s =
     s\<lparr>error := Some message,
       imgRef := None,
       editMaskCanvasRef := None,
       preserveMaskCanvasRef := None\<rparr>"

subsection \<open>Navigation\<close>

definition handleUndo :: "'f app \<Rightarrow> 'f app" where
  "handleUndo s =
     (if canUndo s then clearMasks (s\<lparr>historyIndex := historyIndex s - 1\<rparr>) else s)"

definition handleRedo :: "'f app \<Rightarrow> 'f app" where
  "handleRedo s =
     (if canRedo s then clearMasks (s\<lparr>historyIndex := historyIndex s + 1\<rparr>) else s)"

definition handleReset :: "'f app \<Rightarrow> 'f app" where
  "handleReset s =
     (if length (history s) > 0
      then clearMasks (s\<lparr>historyIndex := 0, error := None\<rparr>) else s)"

definition handleUploadNew :: "'f app \<Rightarrow> 'f app" where
  "handleUploadNew s =
     clearMasks (s\<lparr>history := [], historyIndex := - 1, error := None, prompt := [],
                   outputSize := None, promptHistory := [],
                   customAdjustmentPrompt := [], customFilterPrompt := []\<rparr>)"

subsection \<open>Strings\<close>

text \<open>
  \<open>String.prototype.trim\<close> removes, at both ends, the code units that ECMAScript
  calls WhiteSpace or LineTerminator: tab, line feed, vertical tab, form feed, carriage
  return, space, no-break space (U+00A0), U+1680, U+2000 to U+200A, the line and
  paragraph separators (U+2028, U+2029), U+202F, U+205F, U+3000 and the byte order
  mark (U+FEFF). All of them are single code units.
\<close>

definition isWhiteSpaceUnit :: "16 word \<Rightarrow> bool" where
  "isWhiteSpaceUnit u =
     (u \<in> set [0x0009, 0x000A, 0x000B, 0x000C, 0x000D, 0x0020, 0x00A0, 0x1680,
                0x2028, 0x2029, 0x202F, 0x205F, 0x3000, 0xFEFF]
      \<or> (0x2000 \<le> u \<and> u \<le> 0x200A))"

definition trim :: "js_string \<Rightarrow> js_string" where
  "trim s = rev (dropWhile isWhiteSpaceUnit (rev (dropWhile isWhiteSpaceUnit s)))"

text \<open>An ASCII text as a JavaScript string, for writing examples.\<close>

definition ascii :: "string \<Rightarrow> js_string" where
  "ascii cs = map of_char cs"

text \<open>
  The text of a number input is either empty or a number literal, so it is kept as a
  list of ASCII characters; \<open>isWhiteSpace\<close> is the white space that \<open>parseInt\<close>
  skips, within that range.
\<close>

definition isWhiteSpace :: "char \<Rightarrow> bool" where
  "isWhiteSpace c = (c \<in> set [CHR 0x09, CHR 0x0A, CHR 0x0B, CHR 0x0C, CHR 0x0D, CHR '' ''])"

definition isDigit :: "char \<Rightarrow> bool" where
  "isDigit c = (c \<in> set ''0123456789'')"

definition digitValue :: "char \<Rightarrow> int" where
  "digitValue c = int (of_char c) - 48"

text \<open>
  \<open>parseInt(s, 10)\<close>: skip leading white space, read an optional sign, then the longest
  run of decimal digits; anything after it is ignored. \<open>None\<close> is \<open>NaN\<close> (no digit
  was read). Values are mathematical integers; the rounding of integers beyond
  \<open>2^53\<close> to a double is not modelled.
\<close>

definition parseInt10 :: "string \<Rightarrow> int option" where
  "parseInt10 s =
     (let s1 = dropWhile isWhiteSpace s;
          sign = (case s1 of c # _ \<Rightarrow> (if c = CHR ''-'' then - 1 else 1) | [] \<Rightarrow> (1::int));
          s2 = (case s1 of c # r \<Rightarrow> (if c = CHR ''+'' \<or> c = CHR ''-'' then r else s1) | [] \<Rightarrow> s1);
          z = takeWhile isDigit s2
      in if z = [] then None
         else Some (sign * foldl (\<lambda>a c. 10 * a + digitValue c) 0 z))"

text \<open>\<open>n || 0\<close> on a number: \<open>NaN\<close> and \<open>0\<close> are falsy.\<close>

definition orZero :: "int option \<Rightarrow> int" where
  "orZero v = (case v of None \<Rightarrow> 0 | Some n \<Rightarrow> (if n = 0 then 0 else n))"

subsection \<open>Exporting a mask at native resolution\<close>

text \<open>
  \<open>tempCtx.drawImage(sourceCanvas, 0, 0, w, h)\<close> on a fresh canvas of size \<open>w \<times> h\<close>.
  Which colour the browser's resampling filter gives to destination pixel \<open>(x, y)\<close>
  is the parameter \<open>sample\<close>; the destination keeps its own size whatever the source is.
\<close>

type_synonym rgba = "byte \<times> byte \<times> byte \<times> byte"

type_synonym resampler = "canvas \<Rightarrow> nat \<Rightarrow> nat \<Rightarrow> nat \<Rightarrow> nat \<Rightarrow> rgba"

definition drawImage_scaled :: "resampler \<Rightarrow> canvas \<Rightarrow> nat \<Rightarrow> nat \<Rightarrow> byte list" where
  "drawImage_scaled sample src w h =
     concat (map (\<lambda>i. case sample src w h (i mod w) (i div w) of (r, g, b, a) \<Rightarrow> [r, g, b, a])
                 [0 ..< w * h])"

definition tempCanvasOf :: "resampler \<Rightarrow> img_element \<Rightarrow> canvas \<Rightarrow> canvas" where
  "tempCanvasOf sample img src =
     \<lparr>cwidth = naturalWidth img, cheight = naturalHeight img,
      cdata = drawImage_scaled sample src (naturalWidth img) (naturalHeight img)\<rparr>"

text \<open>
  The loop \<open>for (let i = 3; i < blankData.length; i += 4)\<close> with its \<open>break\<close>:
  the value is \<open>isTrulyEmpty\<close> when the scan starts at index \<open>i\<close>.
\<close>

function isTrulyEmpty_from :: "byte list \<Rightarrow> nat \<Rightarrow> bool" where
  "isTrulyEmpty_from blankData i =
     (if i < length blankData
      then (if blankData ! i > 0 then False else isTrulyEmpty_from blankData (i + 4))
      else True)"
  by pat_completeness auto
termination
  by (relation "measure (\<lambda>(d, i). length d - i)") auto

text \<open>
  \<open>scaleAndExportMask\<close>. A \<open>null\<close> canvas gives \<open>null\<close>. \<open>drawImage\<close> throws
  \<open>InvalidStateError\<close> for a source canvas without pixels. \<open>toDataURL\<close> returns
  \<open>'data:,'\<close> exactly for a canvas without pixels, in which case the second operand of
  \<open>||\<close> is not evaluated and \<open>getImageData\<close> with a zero extent throws \<open>IndexSizeError\<close>.
  Otherwise \<open>getImageData(0, 0, 1, 1).data[3]\<close> is the alpha byte of the first pixel.
\<close>

definition scaleAndExportMask ::
  "resampler \<Rightarrow> bool \<Rightarrow> img_element \<Rightarrow> canvas option \<Rightarrow> exn + mask_file option" where
  "scaleAndExportMask sample tempCtxOk img sourceCanvas =
     (case sourceCanvas of
        None \<Rightarrow> Inr None
      | Some src \<Rightarrow>
          if \<not> tempCtxOk then Inl NoTempCanvasContext
          else if cwidth src = 0 \<or> cheight src = 0 then Inl InvalidStateError
          else
            let tempCanvas = tempCanvasOf sample img src
            in if cwidth tempCanvas = 0 \<or> cheight tempCanvas = 0 then Inl IndexSizeError
               else if cdata tempCanvas ! 3 = 0
               then (if isTrulyEmpty_from (cdata tempCanvas) 3 then Inr None
                     else Inr (Some tempCanvas))
               else Inr (Some tempCanvas))"

text \<open>
  \<open>checkCanvasContent\<close> of \<open>handlePointerUp\<close>: the same scan, returning \<open>true\<close> at the
  first non-zero alpha byte.
\<close>

definition checkCanvasContent :: "canvas option \<Rightarrow> bool" where
  "checkCanvasContent c = (case c of None \<Rightarrow> False | Some cv \<Rightarrow> \<not> isTrulyEmpty_from (cdata cv) 3)"

subsection \<open>Operations that produce a new version\<close>

definition generateFailed :: "exn \<Rightarrow> 'f app \<Rightarrow> 'f app" where
  "generateFailed e s = (setError (GenerateFailed e) s)\<lparr>isLoading := False\<rparr>"

text \<open>
  \<open>handleGenerate\<close>: four local checks, each ending the callback with a message; then
  the busy flag, the export of both masks, the check that the exported edit mask is
  not empty, the service call, and on success commit, ledger entry and mask clearing.
  The \<open>catch\<close> block reports any exception and \<open>finally\<close> clears the busy flag.
\<close>

definition handleGenerate ::
  "'f service \<Rightarrow> resampler \<Rightarrow> bool \<Rightarrow> 'f app \<Rightarrow> 'f app" where
  "handleGenerate svc sample tempCtxOk s =
     (case currentImage s of
        None \<Rightarrow> setError NoImageToEdit s
      | Some cur \<Rightarrow>
          if trim (prompt s) = [] then setError EmptyInstruction s
          else if \<not> hasEditMask s then setError EditMaskNotPainted s
          else
            (case outputSize s of
               None \<Rightarrow> setError OutputSizeUnset s
             | Some sz \<Rightarrow>
                 let s1 = s\<lparr>isLoading := True, error := None\<rparr>
                 in (case imgRef s1 of
                       None \<Rightarrow> generateFailed ImageElementNotFound s1
                     | Some img \<Rightarrow>
                         (case scaleAndExportMask sample tempCtxOk img (editMaskCanvasRef s1) of
                            Inl e \<Rightarrow> generateFailed e s1
                          | Inr editMaskFile \<Rightarrow>
                              (case (if hasPreserveMask s1
                                     then scaleAndExportMask sample tempCtxOk img (preserveMaskCanvasRef s1)
                                     else Inr None) of
                                 Inl e \<Rightarrow> generateFailed e s1
                               | Inr preserveMaskFile \<Rightarrow>
                                   (case editMaskFile of
                                      None \<Rightarrow> (setError EditMaskEmpty s1)\<lparr>isLoading := False\<rparr>
                                    | Some em \<Rightarrow>
                                        let req = EditRequest cur em preserveMaskFile (prompt s) sz;
                                            s2 = s1\<lparr>serviceCalls := serviceCalls s1 @ [req]\<rparr>
                                        in (case svc req of
                                              Inl msg \<Rightarrow> generateFailed (ServiceError msg) s2
                                            | Inr newImageFile \<Rightarrow>
                                                (clearMasks
                                                  (addPromptToHistory ItemRetouch (prompt s)
                                                    (addImageToHistory newImageFile s2)))
                                                \<lparr>isLoading := False\<rparr>)))))))"

definition handleApplyFilter :: "'f service \<Rightarrow> js_string \<Rightarrow> 'f app \<Rightarrow> 'f app" where
  "handleApplyFilter svc filterPrompt s =
     (case currentImage s of
        None \<Rightarrow> setError NoImageForFilter s
      | Some cur \<Rightarrow>
          (case outputSize s of
             None \<Rightarrow> setError OutputSizeUnset s
           | Some sz \<Rightarrow>
               let req = FilterRequest cur filterPrompt sz;
                   s1 = s\<lparr>isLoading := True, error := None,
                          serviceCalls := serviceCalls s @ [req]\<rparr>
               in (case svc req of
                     Inl msg \<Rightarrow> (setError (FilterFailed msg) s1)\<lparr>isLoading := False\<rparr>
                   | Inr newImageFile \<Rightarrow>
                       (addPromptToHistory ItemFilters filterPrompt
                          (addImageToHistory newImageFile s1))
                       \<lparr>isLoading := False\<rparr>)))"

definition handleApplyAdjustment :: "'f service \<Rightarrow> js_string \<Rightarrow> 'f app \<Rightarrow> 'f app" where
  "handleApplyAdjustment svc adjustmentPrompt s =
     (case currentImage s of
        None \<Rightarrow> setError NoImageForAdjustment s
      | Some cur \<Rightarrow>
          (case outputSize s of
             None \<Rightarrow> setError OutputSizeUnset s
           | Some sz \<Rightarrow>
               let req = AdjustRequest cur adjustmentPrompt sz;
                   s1 = s\<lparr>isLoading := True, error := None,
                          serviceCalls := serviceCalls s @ [req]\<rparr>
               in (case svc req of
                     Inl msg \<Rightarrow> (setError (AdjustmentFailed msg) s1)\<lparr>isLoading := False\<rparr>
                   | Inr newImageFile \<Rightarrow>
                       (addPromptToHistory ItemAdjust adjustmentPrompt
                          (addImageToHistory newImageFile s1))
                       \<lparr>isLoading := False\<rparr>)))"

text \<open>
  \<open>handleApplyCrop\<close>. The canvas drawing, \<open>toDataURL\<close> and \<open>dataURLtoFile\<close> together
  are the parameter \<open>rasterize\<close>, which receives the image shown by the element, the
  element and the selection. \<open>ctxOk\<close> says whether \<open>getContext('2d')\<close> gave a context.
\<close>

type_synonym 'f rasterizer = "'f option \<Rightarrow> img_element \<Rightarrow> pixel_crop \<Rightarrow> 'f"

definition handleApplyCrop :: "bool \<Rightarrow> 'f rasterizer \<Rightarrow> 'f app \<Rightarrow> 'f app" where
  "handleApplyCrop ctxOk rasterize s =
     (case completedCrop s of
        None \<Rightarrow> setError NoCropSelected s
      | Some cc \<Rightarrow>
          (case imgRef s of
             None \<Rightarrow> setError NoCropSelected s
           | Some img \<Rightarrow>
               if \<not> ctxOk then setError CropContextFailed s
               else addImageToHistory (rasterize (currentImage s) img cc) s))"

text \<open>
  The crop panel's button: \<open>isCropping\<close> is \<open>!!completedCrop?.width && completedCrop.width > 0\<close>
  and the button is \<open>disabled={isLoading || !isCropping}\<close>; a disabled button does not
  invoke \<open>onApplyCrop\<close>.
\<close>

definition isCropping :: "'f app \<Rightarrow> bool" where
  "isCropping s =
     (case completedCrop s of None \<Rightarrow> False | Some cc \<Rightarrow> crop_width cc \<noteq> 0 \<and> crop_width cc > 0)"

definition clickApplyCrop :: "bool \<Rightarrow> 'f rasterizer \<Rightarrow> 'f app \<Rightarrow> 'f app" where
  "clickApplyCrop ctxOk rasterize s =
     (if isLoading s \<or> \<not> isCropping s then s else handleApplyCrop ctxOk rasterize s)"

subsection \<open>Upload\<close>

text \<open>
  \<open>getImageDimensions\<close> (the decoded image's natural size, or a rejected promise) and
  \<open>resizeImageFile\<close> are parameters.
\<close>

definition proceedWithImageUpload :: "('f \<Rightarrow> output_size option) \<Rightarrow> 'f \<Rightarrow> 'f app \<Rightarrow> 'f app" where
  "proceedWithImageUpload getImageDimensions file s =
     (case getImageDimensions file of
        None \<Rightarrow> setError ImageDimensionsFailed s
      | Some d \<Rightarrow>
          clearMasks
            (s\<lparr>outputSize := Some \<lparr>width = width d, height = height d\<rparr>,
               history := [file], historyIndex := 0, activeTab := Retouch,
               crop := None, completedCrop := None, promptHistory := [],
               customAdjustmentPrompt := [], customFilterPrompt := []\<rparr>))"

definition handleImageUpload :: "('f \<Rightarrow> output_size option) \<Rightarrow> 'f \<Rightarrow> 'f app \<Rightarrow> 'f app" where
  "handleImageUpload getImageDimensions file s =
     (let s0 = s\<lparr>error := None\<rparr>
      in case getImageDimensions file of
           None \<Rightarrow> setError ImageDimensionsFailed s0
         | Some d \<Rightarrow>
             if width d > MAX_IMAGE_DIMENSION \<or> height d > MAX_IMAGE_DIMENSION
             then s0\<lparr>fileToProcess := Some file, isSizeWarningModalOpen := True\<rparr>
             else proceedWithImageUpload getImageDimensions file s0)"

definition handleConfirmResize ::
  "('f \<Rightarrow> output_size option) \<Rightarrow> ('f \<Rightarrow> int \<Rightarrow> 'f option) \<Rightarrow> 'f app \<Rightarrow> 'f app" where
  "handleConfirmResize getImageDimensions resizeImageFile s =
     (case fileToProcess s of
        None \<Rightarrow> s
      | Some f \<Rightarrow>
          let s1 = s\<lparr>isSizeWarningModalOpen := False\<rparr>
          in (case resizeImageFile f MAX_IMAGE_DIMENSION of
                None \<Rightarrow> setError ResizeFailed s1
              | Some resizedFile \<Rightarrow> proceedWithImageUpload getImageDimensions resizedFile s1)
             \<lparr>fileToProcess := None\<rparr>)"

definition handleContinueAnyway :: "('f \<Rightarrow> output_size option) \<Rightarrow> 'f app \<Rightarrow> 'f app" where
  "handleContinueAnyway getImageDimensions s =
     (case fileToProcess s of
        None \<Rightarrow> s
      | Some f \<Rightarrow>
          (proceedWithImageUpload getImageDimensions f (s\<lparr>isSizeWarningModalOpen := False\<rparr>))
          \<lparr>fileToProcess := None\<rparr>)"

subsection \<open>Output size controls of the crop panel\<close>

text \<open>
  \<open>handleWidthChange\<close> and \<open>handleHeightChange\<close> with the text of the input field
  (\<open>e.target.value\<close>); the panel's \<open>outputSize\<close> and \<open>setOutputSize\<close> are the
  component's own cell and setter.
\<close>

definition handleWidthChange :: "string \<Rightarrow> 'f app \<Rightarrow> 'f app" where
  "handleWidthChange v s =
     (case outputSize s of
        None \<Rightarrow> s
      | Some sz \<Rightarrow>
          let newWidth = orZero (parseInt10 v)
          in s\<lparr>outputSize := Some (sz\<lparr>width := newWidth\<rparr>)\<rparr>)"

definition handleHeightChange :: "string \<Rightarrow> 'f app \<Rightarrow> 'f app" where
  "handleHeightChange v s =
     (case outputSize s of
        None \<Rightarrow> s
      | Some sz \<Rightarrow>
          let newHeight = orZero (parseInt10 v)
          in s\<lparr>outputSize := Some (sz\<lparr>height := newHeight\<rparr>)\<rparr>)"

subsection \<open>Sequences of history operations\<close>

datatype 'f event = Commit 'f | Undo | Redo | Reset | UploadNew

fun step :: "'f event \<Rightarrow> 'f app \<Rightarrow> 'f app" where
  "step (Commit f) s = addImageToHistory f s"
| "step Undo s = handleUndo s"
| "step Redo s = handleRedo s"
| "step Reset s = handleReset s"
| "step UploadNew s = handleUploadNew s"

fun run :: "'f event list \<Rightarrow> 'f app \<Rightarrow> 'f app" where
  "run [] s = s"
| "run (e # es) s = run es (step e s)"

fun isCommit :: "'f event \<Rightarrow> bool" where
  "isCommit (Commit f) = True"
| "isCommit e = False"

text \<open>The bounds on the index that the data model states.\<close>

definition hist_inv :: "'f app \<Rightarrow> bool" where
  "hist_inv s = (- 1 \<le> historyIndex s \<and> historyIndex s \<le> int (length (history s)) - 1)"

section \<open>Properties of the version history\<close>

subsection \<open>Committing a version\<close>

lemma slice0_take: "- 1 \<le> i \<Longrightarrow> slice0 xs (i + 1) = take (nat (i + 1)) xs"
  by (cases "i + 1 \<le> int (length xs)") (simp_all add: slice0_def Let_def min_def)

lemma history_addImageToHistory:
  "history (addImageToHistory d s) = slice0 (history s) (historyIndex s + 1) @ [d]"
  by (simp add: addImageToHistory_def Let_def)

lemma historyIndex_addImageToHistory:
  "historyIndex (addImageToHistory d s) = int (length (history (addImageToHistory d s))) - 1"
  by (simp add: addImageToHistory_def Let_def)

text \<open>
  C1. \<open>addImageToHistory\<close> keeps the versions up to and including the current one,
  drops every later version, appends the new version and makes it current. In
  particular, from history \<open>[a, b, c]\<close> with index 1, committing \<open>d\<close> gives
  \<open>[a, b, d]\<close> with index 2.
\<close>

theorem commit_truncates_then_appends:
  "(- 1 \<le> historyIndex s \<longrightarrow>
      history (addImageToHistory d s) = take (nat (historyIndex s + 1)) (history s) @ [d] \<and>
      historyIndex (addImageToHistory d s) = int (length (history (addImageToHistory d s))) - 1) \<and>
   (history s = [a, b, c] \<and> historyIndex s = 1 \<longrightarrow>
      history (addImageToHistory d s) = [a, b, d] \<and> historyIndex (addImageToHistory d s) = 2)"
proof (intro conjI impI)
  assume "- 1 \<le> historyIndex s"
  then show "history (addImageToHistory d s) = take (nat (historyIndex s + 1)) (history s) @ [d]"
    by (simp add: history_addImageToHistory slice0_take)
next
  show "historyIndex (addImageToHistory d s) = int (length (history (addImageToHistory d s))) - 1"
    by (rule historyIndex_addImageToHistory)
next
  assume ex: "history s = [a, b, c] \<and> historyIndex s = 1"
  have two: "nat 2 = Suc (Suc 0)" by simp
  from ex have "slice0 (history s) (historyIndex s + 1) = [a, b]"
    by (simp add: slice0_def Let_def two)
  then show h: "history (addImageToHistory d s) = [a, b, d]"
    by (simp add: history_addImageToHistory)
  show "historyIndex (addImageToHistory d s) = 2"
    by (simp add: historyIndex_addImageToHistory h)
qed

theorem commit_truncates_then_appends_witness:
  "- 1 \<le> historyIndex ((initial_app :: string app)\<lparr>history := [''A'', ''B'', ''C''], historyIndex := 1\<rparr>) \<and>
   history (addImageToHistory ''D''
      ((initial_app :: string app)\<lparr>history := [''A'', ''B'', ''C''], historyIndex := 1\<rparr>))
     = [''A'', ''B'', ''D''] \<and>
   historyIndex (addImageToHistory ''D''
      ((initial_app :: string app)\<lparr>history := [''A'', ''B'', ''C''], historyIndex := 1\<rparr>)) = 2"
  using commit_truncates_then_appends
    [of "(initial_app :: string app)\<lparr>history := [''A'', ''B'', ''C''], historyIndex := 1\<rparr>"
        "''D''" "''A''" "''B''" "''C''"]
  by (simp add: initial_app_def)

subsection \<open>The index stays within the history\<close>

lemma hist_inv_addImageToHistory: "hist_inv (addImageToHistory f s)"
  by (simp add: hist_inv_def addImageToHistory_def Let_def)

lemma hist_inv_handleUndo: "hist_inv s \<Longrightarrow> hist_inv (handleUndo s)"
  by (auto simp: handleUndo_def hist_inv_def canUndo_def clearMasks_def)

lemma hist_inv_handleRedo: "hist_inv s \<Longrightarrow> hist_inv (handleRedo s)"
  by (auto simp: handleRedo_def hist_inv_def canRedo_def clearMasks_def)

lemma hist_inv_handleReset: "hist_inv s \<Longrightarrow> hist_inv (handleReset s)"
  by (auto simp: handleReset_def hist_inv_def clearMasks_def)

lemma hist_inv_handleUploadNew: "hist_inv (handleUploadNew s)"
  by (simp add: handleUploadNew_def hist_inv_def clearMasks_def)

lemma hist_inv_step: "hist_inv s \<Longrightarrow> hist_inv (step e s)"
  by (cases e) (simp_all add: hist_inv_addImageToHistory hist_inv_handleUndo hist_inv_handleRedo
      hist_inv_handleReset hist_inv_handleUploadNew)

lemma hist_inv_run: "hist_inv s \<Longrightarrow> hist_inv (run es s)"
  by (induction es arbitrary: s) (simp_all add: hist_inv_step)

lemma hist_inv_initial_app: "hist_inv initial_app"
  by (simp add: hist_inv_def initial_app_def)

lemma run_append: "run (es @ fs) s = run fs (run es s)"
  by (induction es arbitrary: s) simp_all

lemma commits_index_nonneg:
  "es \<noteq> [] \<Longrightarrow> list_all isCommit es \<Longrightarrow> 0 \<le> historyIndex (run es s)"
proof (induction es arbitrary: s rule: rev_induct)
  case Nil
  then show ?case by simp
next
  case (snoc e es)
  then obtain f where "e = Commit f" by (cases e) simp_all
  then show ?case
    by (simp add: run_append addImageToHistory_def Let_def)
qed

text \<open>
  C2. After any sequence of commit, undo, redo, reset and upload-new operations from
  the initial (empty) state, the index lies between \<open>-1\<close> and \<open>length - 1\<close>,
  \<open>canUndo\<close> holds exactly when the index is positive and \<open>canRedo\<close> exactly when the
  index is below \<open>length - 1\<close>. For a sequence of commits only, after each of its
  steps the index lies between \<open>0\<close> and \<open>length - 1\<close>.
\<close>

theorem reachable_index_in_bounds:
  "- 1 \<le> historyIndex (run es initial_app) \<and>
   historyIndex (run es initial_app) \<le> int (length (history (run es initial_app))) - 1 \<and>
   (canUndo (run es initial_app) \<longleftrightarrow> historyIndex (run es initial_app) > 0) \<and>
   (canRedo (run es initial_app) \<longleftrightarrow>
      historyIndex (run es initial_app) < int (length (history (run es initial_app))) - 1) \<and>
   (list_all isCommit es \<longrightarrow>
      (\<forall>n. 0 < n \<and> n \<le> length es \<longrightarrow>
         0 \<le> historyIndex (run (take n es) initial_app) \<and>
         historyIndex (run (take n es) initial_app)
           \<le> int (length (history (run (take n es) initial_app))) - 1))"
proof -
  have inv: "hist_inv (run xs initial_app)" for xs :: "'a event list"
    by (rule hist_inv_run [OF hist_inv_initial_app])
  have "0 \<le> historyIndex (run (take n es) initial_app)"
    if "list_all isCommit es" "0 < n" "n \<le> length es" for n
  proof -
    from that have "take n es \<noteq> []" by auto
    moreover from that have "list_all isCommit (take n es)"
      by (auto simp: list_all_iff dest: in_set_takeD)
    ultimately show ?thesis by (rule commits_index_nonneg)
  qed
  with inv [of es] inv show ?thesis
    by (auto simp: hist_inv_def canUndo_def canRedo_def)
qed

theorem reachable_index_in_bounds_witness:
  "list_all isCommit [Commit ''A'', Commit ''B'', Commit ''C''] \<and>
   (0::nat) < 2 \<and> 2 \<le> length [Commit ''A'', Commit ''B'', Commit ''C''] \<and>
   historyIndex (run (take 2 [Commit ''A'', Commit ''B'', Commit ''C'']) initial_app) = 1 \<and>
   history (run (take 2 [Commit ''A'', Commit ''B'', Commit ''C'']) initial_app) = [''A'', ''B''] \<and>
   0 \<le> historyIndex (run (take 2 [Commit ''A'', Commit ''B'', Commit ''C'']) initial_app) \<and>
   historyIndex (run (take 2 [Commit ''A'', Commit ''B'', Commit ''C'']) initial_app)
     \<le> int (length (history (run (take 2 [Commit ''A'', Commit ''B'', Commit ''C'']) initial_app))) - 1"
  using reachable_index_in_bounds [of "[Commit ''A'', Commit ''B'', Commit ''C'']"]
  by (simp add: initial_app_def addImageToHistory_def slice0_def Let_def)

subsection \<open>Undo, redo and reset\<close>

lemma history_clearMasks: "history (clearMasks s) = history s"
  by (simp add: clearMasks_def)

lemma historyIndex_clearMasks: "historyIndex (clearMasks s) = historyIndex s"
  by (simp add: clearMasks_def)

lemma history_handleUndo: "history (handleUndo s) = history s"
  by (simp add: handleUndo_def history_clearMasks)

lemma history_handleRedo: "history (handleRedo s) = history s"
  by (simp add: handleRedo_def history_clearMasks)

lemma history_handleReset: "history (handleReset s) = history s"
  by (simp add: handleReset_def history_clearMasks)

lemma historyIndex_handleUndo:
  "canUndo s \<Longrightarrow> historyIndex (handleUndo s) = historyIndex s - 1"
  by (simp add: handleUndo_def historyIndex_clearMasks)

lemma historyIndex_handleRedo:
  "canRedo s \<Longrightarrow> historyIndex (handleRedo s) = historyIndex s + 1"
  by (simp add: handleRedo_def historyIndex_clearMasks)

lemma historyIndex_handleReset:
  "history s \<noteq> [] \<Longrightarrow> historyIndex (handleReset s) = 0"
  by (simp add: handleReset_def historyIndex_clearMasks)

lemma currentImage_eqI:
  "history t = history s \<Longrightarrow> historyIndex t = historyIndex s \<Longrightarrow> currentImage t = currentImage s"
  by (simp add: currentImage_def)

text \<open>
  C3. In a history state (index between \<open>-1\<close> and \<open>length - 1\<close>) where \<open>canUndo\<close>
  holds, undo followed by redo restores the index; neither operation changes the
  list of versions, so the current image is the same element of the same list.
\<close>

theorem undo_then_redo_restores:
  "- 1 \<le> historyIndex s \<and> historyIndex s \<le> int (length (history s)) - 1 \<Longrightarrow> canUndo s \<Longrightarrow>
     historyIndex (handleRedo (handleUndo s)) = historyIndex s \<and>
     history (handleUndo s) = history s \<and>
     history (handleRedo (handleUndo s)) = history s \<and>
     currentImage (handleRedo (handleUndo s)) = currentImage s"
proof -
  assume inv: "- 1 \<le> historyIndex s \<and> historyIndex s \<le> int (length (history s)) - 1"
    and u: "canUndo s"
  from u have undo: "historyIndex (handleUndo s) = historyIndex s - 1"
    by (rule historyIndex_handleUndo)
  with inv have "canRedo (handleUndo s)"
    by (simp add: canRedo_def history_handleUndo)
  then have "historyIndex (handleRedo (handleUndo s)) = historyIndex (handleUndo s) + 1"
    by (rule historyIndex_handleRedo)
  with undo have idx: "historyIndex (handleRedo (handleUndo s)) = historyIndex s"
    by simp
  have h: "history (handleRedo (handleUndo s)) = history s"
    by (simp add: history_handleRedo history_handleUndo)
  from h idx have "currentImage (handleRedo (handleUndo s)) = currentImage s"
    by (rule currentImage_eqI)
  with idx h show ?thesis
    by (simp add: history_handleUndo)
qed

theorem undo_then_redo_restores_witness:
  "(- 1 \<le> historyIndex ((initial_app :: string app)\<lparr>history := [''A'', ''B''], historyIndex := 1\<rparr>) \<and>
    historyIndex ((initial_app :: string app)\<lparr>history := [''A'', ''B''], historyIndex := 1\<rparr>)
      \<le> int (length (history ((initial_app :: string app)\<lparr>history := [''A'', ''B''], historyIndex := 1\<rparr>))) - 1) \<and>
   canUndo ((initial_app :: string app)\<lparr>history := [''A'', ''B''], historyIndex := 1\<rparr>) \<and>
   currentImage (handleUndo ((initial_app :: string app)\<lparr>history := [''A'', ''B''], historyIndex := 1\<rparr>))
     = Some ''A'' \<and>
   historyIndex (handleRedo (handleUndo
      ((initial_app :: string app)\<lparr>history := [''A'', ''B''], historyIndex := 1\<rparr>))) = 1 \<and>
   currentImage (handleRedo (handleUndo
      ((initial_app :: string app)\<lparr>history := [''A'', ''B''], historyIndex := 1\<rparr>))) = Some ''B''"
  using undo_then_redo_restores
    [of "(initial_app :: string app)\<lparr>history := [''A'', ''B''], historyIndex := 1\<rparr>"]
  by (simp add: initial_app_def canUndo_def canRedo_def handleUndo_def handleRedo_def
      clearMasks_def currentImage_def)

lemma redo_after_reset:
  "k < length (history s) \<Longrightarrow>
     historyIndex ((handleRedo ^^ k) (handleReset s)) = int k \<and>
     history ((handleRedo ^^ k) (handleReset s)) = history s"
proof (induction k)
  case 0
  then have "history s \<noteq> []" by auto
  then show ?case by (simp add: historyIndex_handleReset history_handleReset)
next
  case (Suc k)
  define t where "t = (handleRedo ^^ k) (handleReset s)"
  from Suc have ih: "historyIndex t = int k" and h: "history t = history s"
    by (simp_all add: t_def)
  from ih h Suc.prems have "canRedo t"
    by (simp add: canRedo_def)
  then have "historyIndex (handleRedo t) = historyIndex t + 1"
    by (rule historyIndex_handleRedo)
  with ih h have "historyIndex (handleRedo t) = int (Suc k) \<and> history (handleRedo t) = history s"
    by (simp add: history_handleRedo)
  then show ?case by (simp add: t_def)
qed

lemma currentImage_redo_after_reset:
  assumes "k < length (history s)"
  shows "currentImage ((handleRedo ^^ k) (handleReset s)) = Some (history s ! k)"
  using redo_after_reset [OF assms] assms by (simp add: currentImage_def)

text \<open>
  C4. On a non-empty history, reset sets the index to 0 and leaves the list of
  versions as it is; \<open>k\<close> subsequent redo operations then reach version \<open>k\<close>, for
  every \<open>k\<close> below the length. From \<open>[a, b, c]\<close> with index 2: after reset the index
  is 0 and the history is still \<open>[a, b, c]\<close>, one redo shows \<open>b\<close>, a second shows \<open>c\<close>.
\<close>

theorem reset_keeps_forward_versions:
  "(history s \<noteq> [] \<longrightarrow>
      historyIndex (handleReset s) = 0 \<and> history (handleReset s) = history s \<and>
      (\<forall>k < length (history s).
         history ((handleRedo ^^ k) (handleReset s)) = history s \<and>
         currentImage ((handleRedo ^^ k) (handleReset s)) = Some (history s ! k))) \<and>
   (history s = [a, b, c] \<and> historyIndex s = 2 \<longrightarrow>
      historyIndex (handleReset s) = 0 \<and> history (handleReset s) = [a, b, c] \<and>
      currentImage (handleRedo (handleReset s)) = Some b \<and>
      currentImage (handleRedo (handleRedo (handleReset s))) = Some c)"
proof (intro conjI impI allI)
  assume "history s \<noteq> []"
  then show "historyIndex (handleReset s) = 0" by (rule historyIndex_handleReset)
next
  show "history (handleReset s) = history s" by (rule history_handleReset)
next
  fix k assume "k < length (history s)"
  then show "history ((handleRedo ^^ k) (handleReset s)) = history s"
    using redo_after_reset by blast
next
  fix k assume "k < length (history s)"
  then show "currentImage ((handleRedo ^^ k) (handleReset s)) = Some (history s ! k)"
    by (rule currentImage_redo_after_reset)
next
  assume "history s = [a, b, c] \<and> historyIndex s = 2"
  then show "historyIndex (handleReset s) = 0" by (simp add: historyIndex_handleReset)
next
  assume "history s = [a, b, c] \<and> historyIndex s = 2"
  then show "history (handleReset s) = [a, b, c]" by (simp add: history_handleReset)
next
  assume ex: "history s = [a, b, c] \<and> historyIndex s = 2"
  have "currentImage ((handleRedo ^^ Suc 0) (handleReset s)) = Some (history s ! Suc 0)"
    by (rule currentImage_redo_after_reset) (simp add: ex)
  then show "currentImage (handleRedo (handleReset s)) = Some b"
    by (simp add: ex)
next
  assume ex: "history s = [a, b, c] \<and> historyIndex s = 2"
  have "currentImage ((handleRedo ^^ Suc (Suc 0)) (handleReset s)) = Some (history s ! Suc (Suc 0))"
    by (rule currentImage_redo_after_reset) (simp add: ex)
  then show "currentImage (handleRedo (handleRedo (handleReset s))) = Some c"
    by (simp add: ex)
qed

theorem reset_keeps_forward_versions_witness:
  "history ((initial_app :: string app)\<lparr>history := [''A'', ''B'', ''C''], historyIndex := 2\<rparr>) \<noteq> [] \<and>
   history ((initial_app :: string app)\<lparr>history := [''A'', ''B'', ''C''], historyIndex := 2\<rparr>)
     = [''A'', ''B'', ''C''] \<and>
   historyIndex ((initial_app :: string app)\<lparr>history := [''A'', ''B'', ''C''], historyIndex := 2\<rparr>) = 2 \<and>
   historyIndex (handleReset
     ((initial_app :: string app)\<lparr>history := [''A'', ''B'', ''C''], historyIndex := 2\<rparr>)) = 0 \<and>
   history (handleReset
     ((initial_app :: string app)\<lparr>history := [''A'', ''B'', ''C''], historyIndex := 2\<rparr>))
     = [''A'', ''B'', ''C''] \<and>
   currentImage (handleRedo (handleReset
     ((initial_app :: string app)\<lparr>history := [''A'', ''B'', ''C''], historyIndex := 2\<rparr>)))
     = Some ''B'' \<and>
   currentImage (handleRedo (handleRedo (handleReset
     ((initial_app :: string app)\<lparr>history := [''A'', ''B'', ''C''], historyIndex := 2\<rparr>))))
     = Some ''C''"
  using reset_keeps_forward_versions
    [of "(initial_app :: string app)\<lparr>history := [''A'', ''B'', ''C''], historyIndex := 2\<rparr>"
        "''A''" "''B''" "''C''"]
  by (simp add: initial_app_def)

section \<open>Properties of the operations\<close>

subsection \<open>Local validation in \<open>handleGenerate\<close>\<close>

lemma setError_frame:
  "serviceCalls (setError e s) = serviceCalls s \<and>
   history (setError e s) = history s \<and>
   historyIndex (setError e s) = historyIndex s \<and>
   promptHistory (setError e s) = promptHistory s \<and>
   hasEditMask (setError e s) = hasEditMask s \<and>
   hasPreserveMask (setError e s) = hasPreserveMask s"
  by (simp add: setError_def)

lemma handleGenerate_rejects:
  assumes "currentImage s = None \<or> trim (prompt s) = [] \<or> \<not> hasEditMask s \<or> outputSize s = None"
  shows "\<exists>e \<in> {NoImageToEdit, EmptyInstruction, EditMaskNotPainted, OutputSizeUnset}.
           handleGenerate svc sample ok s = setError e s"
  using assms by (auto simp: handleGenerate_def split: option.splits)

text \<open>
  C9, as stated, fails in its last part: the mask layers do not survive a validation
  error. With one version loaded, an instruction made of a no-break space and a
  space, the edit flag set, an output size and a painted edit canvas mounted,
  \<open>handleGenerate\<close> reports the empty instruction, and the error dialog that
  replaces the editor unmounts both mask canvases: the painted canvas is gone.
\<close>

theorem validation_error_unmounts_masks:
  "trim (prompt ((initial_app :: string app)
       \<lparr>history := [''A''], historyIndex := 0, prompt := [0x00A0, 0x0020], hasEditMask := True,
        outputSize := Some \<lparr>width = 800, height = 600\<rparr>,
        imgRef := Some \<lparr>naturalWidth = 800, naturalHeight = 600, imgWidth = 400, imgHeight = 300\<rparr>,
        editMaskCanvasRef := Some \<lparr>cwidth = 1, cheight = 1, cdata = [75, 128, 255, 178]\<rparr>,
        preserveMaskCanvasRef := Some \<lparr>cwidth = 1, cheight = 1, cdata = [0, 0, 0, 0]\<rparr>\<rparr>)) = [] \<and>
   editMaskCanvasRef ((initial_app :: string app)
       \<lparr>history := [''A''], historyIndex := 0, prompt := [0x00A0, 0x0020], hasEditMask := True,
        outputSize := Some \<lparr>width = 800, height = 600\<rparr>,
        imgRef := Some \<lparr>naturalWidth = 800, naturalHeight = 600, imgWidth = 400, imgHeight = 300\<rparr>,
        editMaskCanvasRef := Some \<lparr>cwidth = 1, cheight = 1, cdata = [75, 128, 255, 178]\<rparr>,
        preserveMaskCanvasRef := Some \<lparr>cwidth = 1, cheight = 1, cdata = [0, 0, 0, 0]\<rparr>\<rparr>)
     = Some \<lparr>cwidth = 1, cheight = 1, cdata = [75, 128, 255, 178]\<rparr> \<and>
   error (handleGenerate (\<lambda>r. Inr ''B'') (\<lambda>c w h x y. (0, 0, 0, 0)) True
      ((initial_app :: string app)
         \<lparr>history := [''A''], historyIndex := 0, prompt := [0x00A0, 0x0020], hasEditMask := True,
          outputSize := Some \<lparr>width = 800, height = 600\<rparr>,
          imgRef := Some \<lparr>naturalWidth = 800, naturalHeight = 600, imgWidth = 400, imgHeight = 300\<rparr>,
          editMaskCanvasRef := Some \<lparr>cwidth = 1, cheight = 1, cdata = [75, 128, 255, 178]\<rparr>,
          preserveMaskCanvasRef := Some \<lparr>cwidth = 1, cheight = 1, cdata = [0, 0, 0, 0]\<rparr>\<rparr>)) = Some EmptyInstruction \<and>
   editMaskCanvasRef (handleGenerate (\<lambda>r. Inr ''B'') (\<lambda>c w h x y. (0, 0, 0, 0)) True
      ((initial_app :: string app)
         \<lparr>history := [''A''], historyIndex := 0, prompt := [0x00A0, 0x0020], hasEditMask := True,
          outputSize := Some \<lparr>width = 800, height = 600\<rparr>,
          imgRef := Some \<lparr>naturalWidth = 800, naturalHeight = 600, imgWidth = 400, imgHeight = 300\<rparr>,
          editMaskCanvasRef := Some \<lparr>cwidth = 1, cheight = 1, cdata = [75, 128, 255, 178]\<rparr>,
          preserveMaskCanvasRef := Some \<lparr>cwidth = 1, cheight = 1, cdata = [0, 0, 0, 0]\<rparr>\<rparr>)) = None \<and>
   preserveMaskCanvasRef (handleGenerate (\<lambda>r. Inr ''B'') (\<lambda>c w h x y. (0, 0, 0, 0)) True
      ((initial_app :: string app)
         \<lparr>history := [''A''], historyIndex := 0, prompt := [0x00A0, 0x0020], hasEditMask := True,
          outputSize := Some \<lparr>width = 800, height = 600\<rparr>,
          imgRef := Some \<lparr>naturalWidth = 800, naturalHeight = 600, imgWidth = 400, imgHeight = 300\<rparr>,
          editMaskCanvasRef := Some \<lparr>cwidth = 1, cheight = 1, cdata = [75, 128, 255, 178]\<rparr>,
          preserveMaskCanvasRef := Some \<lparr>cwidth = 1, cheight = 1, cdata = [0, 0, 0, 0]\<rparr>\<rparr>)) = None"
  by (simp add: initial_app_def handleGenerate_def currentImage_def trim_def isWhiteSpaceUnit_def
      setError_def)

text \<open>
  C9, amended. When \<open>handleGenerate\<close> is invoked with no current image, with an
  instruction that is empty after trimming, with the edit-mask flag unset, or with no
  output size, it reports one of the four corresponding errors before anything else
  happens: no request is sent to the generation service (whatever the service, the
  resampler and the canvas context are), and the history, the index, the prompt
  ledger and both mask flags are as before. The only cells that change are the error
  and the references to the image element and the two mask canvases, which are
  unmounted while the error is shown.
\<close>

theorem generate_validation_changes_only_error:
  assumes "currentImage s = None \<or> trim (prompt s) = [] \<or> \<not> hasEditMask s \<or> outputSize s = None"
  shows "handleGenerate svc sample ok s
           = s\<lparr>error := error (handleGenerate svc sample ok s),
               imgRef := None, editMaskCanvasRef := None, preserveMaskCanvasRef := None\<rparr> \<and>
         error (handleGenerate svc sample ok s)
           \<in> {Some NoImageToEdit, Some EmptyInstruction, Some EditMaskNotPainted, Some OutputSizeUnset} \<and>
         serviceCalls (handleGenerate svc sample ok s) = serviceCalls s \<and>
         history (handleGenerate svc sample ok s) = history s \<and>
         historyIndex (handleGenerate svc sample ok s) = historyIndex s \<and>
         promptHistory (handleGenerate svc sample ok s) = promptHistory s \<and>
         hasEditMask (handleGenerate svc sample ok s) = hasEditMask s \<and>
         hasPreserveMask (handleGenerate svc sample ok s) = hasPreserveMask s \<and>
         editMaskCanvasRef (handleGenerate svc sample ok s) = None \<and>
         preserveMaskCanvasRef (handleGenerate svc sample ok s) = None"
proof -
  from handleGenerate_rejects [OF assms]
  obtain e where e: "e \<in> {NoImageToEdit, EmptyInstruction, EditMaskNotPainted, OutputSizeUnset}"
    and eq: "handleGenerate svc sample ok s = setError e s"
    by blast
  from e show ?thesis
    unfolding eq by (auto simp: setError_def)
qed

theorem generate_validation_changes_only_error_witness:
  "(currentImage ((initial_app :: string app)
       \<lparr>history := [''A''], historyIndex := 0, prompt := [0x00A0, 0x0020], hasEditMask := True,
        outputSize := Some \<lparr>width = 800, height = 600\<rparr>,
        imgRef := Some \<lparr>naturalWidth = 800, naturalHeight = 600, imgWidth = 400, imgHeight = 300\<rparr>,
        editMaskCanvasRef := Some \<lparr>cwidth = 1, cheight = 1, cdata = [75, 128, 255, 178]\<rparr>,
        preserveMaskCanvasRef := Some \<lparr>cwidth = 1, cheight = 1, cdata = [0, 0, 0, 0]\<rparr>\<rparr>) = None \<or>
    trim (prompt ((initial_app :: string app)
       \<lparr>history := [''A''], historyIndex := 0, prompt := [0x00A0, 0x0020], hasEditMask := True,
        outputSize := Some \<lparr>width = 800, height = 600\<rparr>,
        imgRef := Some \<lparr>naturalWidth = 800, naturalHeight = 600, imgWidth = 400, imgHeight = 300\<rparr>,
        editMaskCanvasRef := Some \<lparr>cwidth = 1, cheight = 1, cdata = [75, 128, 255, 178]\<rparr>,
        preserveMaskCanvasRef := Some \<lparr>cwidth = 1, cheight = 1, cdata = [0, 0, 0, 0]\<rparr>\<rparr>)) = [] \<or>
    \<not> hasEditMask ((initial_app :: string app)
       \<lparr>history := [''A''], historyIndex := 0, prompt := [0x00A0, 0x0020], hasEditMask := True,
        outputSize := Some \<lparr>width = 800, height = 600\<rparr>,
        imgRef := Some \<lparr>naturalWidth = 800, naturalHeight = 600, imgWidth = 400, imgHeight = 300\<rparr>,
        editMaskCanvasRef := Some \<lparr>cwidth = 1, cheight = 1, cdata = [75, 128, 255, 178]\<rparr>,
        preserveMaskCanvasRef := Some \<lparr>cwidth = 1, cheight = 1, cdata = [0, 0, 0, 0]\<rparr>\<rparr>) \<or>
    outputSize ((initial_app :: string app)
       \<lparr>history := [''A''], historyIndex := 0, prompt := [0x00A0, 0x0020], hasEditMask := True,
        outputSize := Some \<lparr>width = 800, height = 600\<rparr>,
        imgRef := Some \<lparr>naturalWidth = 800, naturalHeight = 600, imgWidth = 400, imgHeight = 300\<rparr>,
        editMaskCanvasRef := Some \<lparr>cwidth = 1, cheight = 1, cdata = [75, 128, 255, 178]\<rparr>,
        preserveMaskCanvasRef := Some \<lparr>cwidth = 1, cheight = 1, cdata = [0, 0, 0, 0]\<rparr>\<rparr>) = None) \<and>
   error (handleGenerate (\<lambda>r. Inr ''B'') (\<lambda>c w h x y. (0, 0, 0, 0)) True
      ((initial_app :: string app)
         \<lparr>history := [''A''], historyIndex := 0, prompt := [0x00A0, 0x0020], hasEditMask := True,
          outputSize := Some \<lparr>width = 800, height = 600\<rparr>,
          imgRef := Some \<lparr>naturalWidth = 800, naturalHeight = 600, imgWidth = 400, imgHeight = 300\<rparr>,
          editMaskCanvasRef := Some \<lparr>cwidth = 1, cheight = 1, cdata = [75, 128, 255, 178]\<rparr>,
          preserveMaskCanvasRef := Some \<lparr>cwidth = 1, cheight = 1, cdata = [0, 0, 0, 0]\<rparr>\<rparr>)) = Some EmptyInstruction \<and>
   serviceCalls (handleGenerate (\<lambda>r. Inr ''B'') (\<lambda>c w h x y. (0, 0, 0, 0)) True
      ((initial_app :: string app)
         \<lparr>history := [''A''], historyIndex := 0, prompt := [0x00A0, 0x0020], hasEditMask := True,
          outputSize := Some \<lparr>width = 800, height = 600\<rparr>,
          imgRef := Some \<lparr>naturalWidth = 800, naturalHeight = 600, imgWidth = 400, imgHeight = 300\<rparr>,
          editMaskCanvasRef := Some \<lparr>cwidth = 1, cheight = 1, cdata = [75, 128, 255, 178]\<rparr>,
          preserveMaskCanvasRef := Some \<lparr>cwidth = 1, cheight = 1, cdata = [0, 0, 0, 0]\<rparr>\<rparr>)) = [] \<and>
   history (handleGenerate (\<lambda>r. Inr ''B'') (\<lambda>c w h x y. (0, 0, 0, 0)) True
      ((initial_app :: string app)
         \<lparr>history := [''A''], historyIndex := 0, prompt := [0x00A0, 0x0020], hasEditMask := True,
          outputSize := Some \<lparr>width = 800, height = 600\<rparr>,
          imgRef := Some \<lparr>naturalWidth = 800, naturalHeight = 600, imgWidth = 400, imgHeight = 300\<rparr>,
          editMaskCanvasRef := Some \<lparr>cwidth = 1, cheight = 1, cdata = [75, 128, 255, 178]\<rparr>,
          preserveMaskCanvasRef := Some \<lparr>cwidth = 1, cheight = 1, cdata = [0, 0, 0, 0]\<rparr>\<rparr>)) = [''A''] \<and>
   hasEditMask (handleGenerate (\<lambda>r. Inr ''B'') (\<lambda>c w h x y. (0, 0, 0, 0)) True
      ((initial_app :: string app)
         \<lparr>history := [''A''], historyIndex := 0, prompt := [0x00A0, 0x0020], hasEditMask := True,
          outputSize := Some \<lparr>width = 800, height = 600\<rparr>,
          imgRef := Some \<lparr>naturalWidth = 800, naturalHeight = 600, imgWidth = 400, imgHeight = 300\<rparr>,
          editMaskCanvasRef := Some \<lparr>cwidth = 1, cheight = 1, cdata = [75, 128, 255, 178]\<rparr>,
          preserveMaskCanvasRef := Some \<lparr>cwidth = 1, cheight = 1, cdata = [0, 0, 0, 0]\<rparr>\<rparr>))"
  using generate_validation_changes_only_error
    [of "(initial_app :: string app)
       \<lparr>history := [''A''], historyIndex := 0, prompt := [0x00A0, 0x0020], hasEditMask := True,
        outputSize := Some \<lparr>width = 800, height = 600\<rparr>,
        imgRef := Some \<lparr>naturalWidth = 800, naturalHeight = 600, imgWidth = 400, imgHeight = 300\<rparr>,
        editMaskCanvasRef := Some \<lparr>cwidth = 1, cheight = 1, cdata = [75, 128, 255, 178]\<rparr>,
        preserveMaskCanvasRef := Some \<lparr>cwidth = 1, cheight = 1, cdata = [0, 0, 0, 0]\<rparr>\<rparr>"
        "\<lambda>r. Inr ''B''" "\<lambda>c w h x y. (0, 0, 0, 0)" True]
  by (simp add: initial_app_def handleGenerate_def currentImage_def trim_def isWhiteSpaceUnit_def
      setError_def)

text \<open>
  The later check, on the exported edit mask (message \<open>EditMaskEmpty\<close>), also
  precedes the service call and leaves history, index, ledger and flags unchanged.
\<close>

lemma generate_empty_export_no_call:
  assumes "error (handleGenerate svc sample ok s) = Some EditMaskEmpty"
  shows "serviceCalls (handleGenerate svc sample ok s) = serviceCalls s \<and>
         history (handleGenerate svc sample ok s) = history s \<and>
         historyIndex (handleGenerate svc sample ok s) = historyIndex s \<and>
         promptHistory (handleGenerate svc sample ok s) = promptHistory s \<and>
         hasEditMask (handleGenerate svc sample ok s) = hasEditMask s \<and>
         hasPreserveMask (handleGenerate svc sample ok s) = hasPreserveMask s"
  using assms
  by (auto simp: handleGenerate_def generateFailed_def setError_def clearMasks_def
      addImageToHistory_def addPromptToHistory_def Let_def
      split: option.splits sum.splits if_splits)

subsection \<open>Cropping and the prompt ledger\<close>

lemma promptHistory_clearMasks: "promptHistory (clearMasks s) = promptHistory s"
  by (simp add: clearMasks_def)

lemma promptHistory_addImageToHistory: "promptHistory (addImageToHistory f s) = promptHistory s"
  by (simp add: addImageToHistory_def Let_def)

lemma promptHistory_handleApplyCrop:
  "promptHistory (handleApplyCrop ctxOk rasterize s) = promptHistory s"
  by (simp add: handleApplyCrop_def setError_def promptHistory_addImageToHistory
      split: option.splits)

text \<open>
  C10. \<open>handleApplyCrop\<close> never changes the prompt ledger, whether it ends with an
  error or commits; the same holds for the crop button and for undo, redo and reset.
  When a selection and the image element are present and the canvas context is
  obtained, it commits the rasterised crop as a new version.
\<close>

theorem crop_leaves_ledger_unchanged:
  "promptHistory (handleApplyCrop ctxOk rasterize s) = promptHistory s \<and>
   promptHistory (clickApplyCrop ctxOk rasterize s) = promptHistory s \<and>
   promptHistory (handleUndo s) = promptHistory s \<and>
   promptHistory (handleRedo s) = promptHistory s \<and>
   promptHistory (handleReset s) = promptHistory s \<and>
   (completedCrop s = Some cc \<and> imgRef s = Some img \<and> ctxOk \<longrightarrow>
      history (handleApplyCrop ctxOk rasterize s)
        = slice0 (history s) (historyIndex s + 1) @ [rasterize (currentImage s) img cc])"
proof (intro conjI impI)
  show "promptHistory (handleApplyCrop ctxOk rasterize s) = promptHistory s"
    by (rule promptHistory_handleApplyCrop)
  show "promptHistory (clickApplyCrop ctxOk rasterize s) = promptHistory s"
    by (simp add: clickApplyCrop_def promptHistory_handleApplyCrop)
  show "promptHistory (handleUndo s) = promptHistory s"
    by (simp add: handleUndo_def promptHistory_clearMasks)
  show "promptHistory (handleRedo s) = promptHistory s"
    by (simp add: handleRedo_def promptHistory_clearMasks)
  show "promptHistory (handleReset s) = promptHistory s"
    by (simp add: handleReset_def promptHistory_clearMasks)
next
  assume "completedCrop s = Some cc \<and> imgRef s = Some img \<and> ctxOk"
  then have "handleApplyCrop ctxOk rasterize s
      = addImageToHistory (rasterize (currentImage s) img cc) s"
    by (simp add: handleApplyCrop_def)
  then show "history (handleApplyCrop ctxOk rasterize s)
        = slice0 (history s) (historyIndex s + 1) @ [rasterize (currentImage s) img cc]"
    by (simp add: history_addImageToHistory)
qed

theorem crop_leaves_ledger_unchanged_witness:
  "completedCrop ((initial_app :: string app)
      \<lparr>history := [''A''], historyIndex := 0,
       promptHistory := [HistoryItem ItemFilters (ascii ''sepia'')],
       imgRef := Some \<lparr>naturalWidth = 800, naturalHeight = 600, imgWidth = 400, imgHeight = 300\<rparr>,
       completedCrop := Some \<lparr>crop_x = 10, crop_y = 20, crop_width = 50, crop_height = 40\<rparr>\<rparr>)
     = Some \<lparr>crop_x = 10, crop_y = 20, crop_width = 50, crop_height = 40\<rparr> \<and>
   promptHistory (handleApplyCrop True (\<lambda>cur img cc. ''cropped'')
     ((initial_app :: string app)
      \<lparr>history := [''A''], historyIndex := 0,
       promptHistory := [HistoryItem ItemFilters (ascii ''sepia'')],
       imgRef := Some \<lparr>naturalWidth = 800, naturalHeight = 600, imgWidth = 400, imgHeight = 300\<rparr>,
       completedCrop := Some \<lparr>crop_x = 10, crop_y = 20, crop_width = 50, crop_height = 40\<rparr>\<rparr>))
     = [HistoryItem ItemFilters (ascii ''sepia'')] \<and>
   history (handleApplyCrop True (\<lambda>cur img cc. ''cropped'')
     ((initial_app :: string app)
      \<lparr>history := [''A''], historyIndex := 0,
       promptHistory := [HistoryItem ItemFilters (ascii ''sepia'')],
       imgRef := Some \<lparr>naturalWidth = 800, naturalHeight = 600, imgWidth = 400, imgHeight = 300\<rparr>,
       completedCrop := Some \<lparr>crop_x = 10, crop_y = 20, crop_width = 50, crop_height = 40\<rparr>\<rparr>))
     = [''A'', ''cropped'']"
  using crop_leaves_ledger_unchanged
    [of True "\<lambda>cur img cc. ''cropped''"
        "(initial_app :: string app)
      \<lparr>history := [''A''], historyIndex := 0,
       promptHistory := [HistoryItem ItemFilters (ascii ''sepia'')],
       imgRef := Some \<lparr>naturalWidth = 800, naturalHeight = 600, imgWidth = 400, imgHeight = 300\<rparr>,
       completedCrop := Some \<lparr>crop_x = 10, crop_y = 20, crop_width = 50, crop_height = 40\<rparr>\<rparr>"
        "\<lparr>crop_x = 10, crop_y = 20, crop_width = 50, crop_height = 40\<rparr>"
        "\<lparr>naturalWidth = 800, naturalHeight = 600, imgWidth = 400, imgHeight = 300\<rparr>"]
  by (simp add: initial_app_def slice0_def Let_def handleApplyCrop_def addImageToHistory_def
      currentImage_def)

subsection \<open>Clearing the mask layers\<close>

lemma clearMasks_flags: "\<not> hasEditMask (clearMasks s) \<and> \<not> hasPreserveMask (clearMasks s)"
  by (simp add: clearMasks_def)

lemma clearRect_all_transparent: "set (cdata (clearRect_all c)) \<subseteq> {0}"
  by (auto simp: clearRect_all_def)

lemma clearMasks_canvases_transparent:
  "(editMaskCanvasRef (clearMasks s) = Some c \<longrightarrow> set (cdata c) \<subseteq> {0}) \<and>
   (preserveMaskCanvasRef (clearMasks s) = Some c \<longrightarrow> set (cdata c) \<subseteq> {0})"
  using clearRect_all_transparent by (auto simp: clearMasks_def)

lemma navigation_clears_mask_flags:
  "(canUndo s \<longrightarrow> \<not> hasEditMask (handleUndo s) \<and> \<not> hasPreserveMask (handleUndo s)) \<and>
   (canRedo s \<longrightarrow> \<not> hasEditMask (handleRedo s) \<and> \<not> hasPreserveMask (handleRedo s)) \<and>
   (history s \<noteq> [] \<longrightarrow> \<not> hasEditMask (handleReset s) \<and> \<not> hasPreserveMask (handleReset s)) \<and>
   \<not> hasEditMask (handleUploadNew s) \<and> \<not> hasPreserveMask (handleUploadNew s)"
  by (simp add: handleUndo_def handleRedo_def handleReset_def handleUploadNew_def clearMasks_flags)

lemma upload_clears_mask_flags:
  "getImageDimensions file = Some d \<Longrightarrow>
     \<not> hasEditMask (proceedWithImageUpload getImageDimensions file s) \<and>
     \<not> hasPreserveMask (proceedWithImageUpload getImageDimensions file s)"
  by (simp add: proceedWithImageUpload_def clearMasks_flags)

lemma generate_commit_clears_mask_flags:
  "history (handleGenerate svc sample ok s) \<noteq> history s \<Longrightarrow>
     \<not> hasEditMask (handleGenerate svc sample ok s) \<and>
     \<not> hasPreserveMask (handleGenerate svc sample ok s)"
  by (auto simp: handleGenerate_def generateFailed_def setError_def clearMasks_def Let_def
      split: option.splits sum.splits if_splits)

text \<open>
  C5 (where the code departs from it). Undo, redo, reset, upload and a committed
  generative edit end with \<open>clearMasks\<close>, as the lemmas above show. The filter, the
  adjustment and the crop callbacks commit without it: starting on a state whose
  mask flags are set (the user painted on the retouch tab and then changed tab, so
  the mask canvases are unmounted), each of the three commits a new version and
  leaves both flags set.
\<close>

theorem filter_adjust_crop_keep_mask_flags:
  "history (handleApplyFilter (\<lambda>r. Inr ''B'') (ascii ''sepia'')
      ((initial_app :: string app)
        \<lparr>history := [''A''], historyIndex := 0, activeTab := Filters,
         outputSize := Some \<lparr>width = 800, height = 600\<rparr>,
         hasEditMask := True, hasPreserveMask := True\<rparr>)) = [''A'', ''B''] \<and>
   hasEditMask (handleApplyFilter (\<lambda>r. Inr ''B'') (ascii ''sepia'')
      ((initial_app :: string app)
        \<lparr>history := [''A''], historyIndex := 0, activeTab := Filters,
         outputSize := Some \<lparr>width = 800, height = 600\<rparr>,
         hasEditMask := True, hasPreserveMask := True\<rparr>)) \<and>
   hasPreserveMask (handleApplyFilter (\<lambda>r. Inr ''B'') (ascii ''sepia'')
      ((initial_app :: string app)
        \<lparr>history := [''A''], historyIndex := 0, activeTab := Filters,
         outputSize := Some \<lparr>width = 800, height = 600\<rparr>,
         hasEditMask := True, hasPreserveMask := True\<rparr>)) \<and>
   history (handleApplyAdjustment (\<lambda>r. Inr ''B'') (ascii ''warmer'')
      ((initial_app :: string app)
        \<lparr>history := [''A''], historyIndex := 0, activeTab := Adjust,
         outputSize := Some \<lparr>width = 800, height = 600\<rparr>,
         hasEditMask := True, hasPreserveMask := True\<rparr>)) = [''A'', ''B''] \<and>
   hasEditMask (handleApplyAdjustment (\<lambda>r. Inr ''B'') (ascii ''warmer'')
      ((initial_app :: string app)
        \<lparr>history := [''A''], historyIndex := 0, activeTab := Adjust,
         outputSize := Some \<lparr>width = 800, height = 600\<rparr>,
         hasEditMask := True, hasPreserveMask := True\<rparr>)) \<and>
   hasPreserveMask (handleApplyAdjustment (\<lambda>r. Inr ''B'') (ascii ''warmer'')
      ((initial_app :: string app)
        \<lparr>history := [''A''], historyIndex := 0, activeTab := Adjust,
         outputSize := Some \<lparr>width = 800, height = 600\<rparr>,
         hasEditMask := True, hasPreserveMask := True\<rparr>)) \<and>
   history (handleApplyCrop True (\<lambda>cur img cc. ''B'')
      ((initial_app :: string app)
        \<lparr>history := [''A''], historyIndex := 0, activeTab := Crop,
         imgRef := Some \<lparr>naturalWidth = 800, naturalHeight = 600, imgWidth = 400, imgHeight = 300\<rparr>,
         completedCrop := Some \<lparr>crop_x = 10, crop_y = 20, crop_width = 50, crop_height = 40\<rparr>,
         hasEditMask := True, hasPreserveMask := True\<rparr>)) = [''A'', ''B''] \<and>
   hasEditMask (handleApplyCrop True (\<lambda>cur img cc. ''B'')
      ((initial_app :: string app)
        \<lparr>history := [''A''], historyIndex := 0, activeTab := Crop,
         imgRef := Some \<lparr>naturalWidth = 800, naturalHeight = 600, imgWidth = 400, imgHeight = 300\<rparr>,
         completedCrop := Some \<lparr>crop_x = 10, crop_y = 20, crop_width = 50, crop_height = 40\<rparr>,
         hasEditMask := True, hasPreserveMask := True\<rparr>)) \<and>
   hasPreserveMask (handleApplyCrop True (\<lambda>cur img cc. ''B'')
      ((initial_app :: string app)
        \<lparr>history := [''A''], historyIndex := 0, activeTab := Crop,
         imgRef := Some \<lparr>naturalWidth = 800, naturalHeight = 600, imgWidth = 400, imgHeight = 300\<rparr>,
         completedCrop := Some \<lparr>crop_x = 10, crop_y = 20, crop_width = 50, crop_height = 40\<rparr>,
         hasEditMask := True, hasPreserveMask := True\<rparr>))"
  by (simp add: initial_app_def handleApplyFilter_def handleApplyAdjustment_def handleApplyCrop_def
      currentImage_def addImageToHistory_def addPromptToHistory_def slice0_def Let_def)

subsection \<open>Degenerate crop selections\<close>

lemma zero_width_button_disabled:
  "completedCrop s = Some cc \<Longrightarrow> crop_width cc = 0 \<Longrightarrow> clickApplyCrop ctxOk rasterize s = s"
  by (simp add: clickApplyCrop_def isCropping_def)

lemma no_selection_is_rejected:
  "completedCrop s = None \<Longrightarrow>
     handleApplyCrop ctxOk rasterize s = setError NoCropSelected s"
  by (simp add: handleApplyCrop_def)

text \<open>
  C6 (where the code departs from it). The crop button is disabled for a selection
  of width 0 (lemma \<open>zero_width_button_disabled\<close>), but neither the button nor
  \<open>handleApplyCrop\<close> looks at the height: for the selection
  \<open>{x: 10, y: 20, width: 50, height: 0}\<close> the button is enabled, clicking it reports
  no error and commits whatever the rasteriser returns as a new version, so the
  history grows from one version to two and the index moves from 0 to 1.
\<close>

theorem zero_height_crop_is_committed:
  "isCropping ((initial_app :: string app)
      \<lparr>history := [''A''], historyIndex := 0, activeTab := Crop,
       imgRef := Some \<lparr>naturalWidth = 800, naturalHeight = 600, imgWidth = 400, imgHeight = 300\<rparr>,
       completedCrop := Some \<lparr>crop_x = 10, crop_y = 20, crop_width = 50, crop_height = 0\<rparr>\<rparr>) \<and>
   history (clickApplyCrop True (\<lambda>cur img cc. ''degenerate'')
     ((initial_app :: string app)
      \<lparr>history := [''A''], historyIndex := 0, activeTab := Crop,
       imgRef := Some \<lparr>naturalWidth = 800, naturalHeight = 600, imgWidth = 400, imgHeight = 300\<rparr>,
       completedCrop := Some \<lparr>crop_x = 10, crop_y = 20, crop_width = 50, crop_height = 0\<rparr>\<rparr>))
     = [''A'', ''degenerate''] \<and>
   historyIndex (clickApplyCrop True (\<lambda>cur img cc. ''degenerate'')
     ((initial_app :: string app)
      \<lparr>history := [''A''], historyIndex := 0, activeTab := Crop,
       imgRef := Some \<lparr>naturalWidth = 800, naturalHeight = 600, imgWidth = 400, imgHeight = 300\<rparr>,
       completedCrop := Some \<lparr>crop_x = 10, crop_y = 20, crop_width = 50, crop_height = 0\<rparr>\<rparr>)) = 1 \<and>
   error (clickApplyCrop True (\<lambda>cur img cc. ''degenerate'')
     ((initial_app :: string app)
      \<lparr>history := [''A''], historyIndex := 0, activeTab := Crop,
       imgRef := Some \<lparr>naturalWidth = 800, naturalHeight = 600, imgWidth = 400, imgHeight = 300\<rparr>,
       completedCrop := Some \<lparr>crop_x = 10, crop_y = 20, crop_width = 50, crop_height = 0\<rparr>\<rparr>)) = None"
  by (simp add: initial_app_def clickApplyCrop_def isCropping_def handleApplyCrop_def
      currentImage_def addImageToHistory_def slice0_def Let_def)

subsection \<open>The output size\<close>

lemma outputSize_handleWidthChange:
  "outputSize s = Some sz \<Longrightarrow>
     outputSize (handleWidthChange v s) = Some (sz\<lparr>width := orZero (parseInt10 v)\<rparr>)"
  by (simp add: handleWidthChange_def Let_def)

lemma outputSize_handleHeightChange:
  "outputSize s = Some sz \<Longrightarrow>
     outputSize (handleHeightChange v s) = Some (sz\<lparr>height := orZero (parseInt10 v)\<rparr>)"
  by (simp add: handleHeightChange_def Let_def)

lemma parseInt10_zero: "parseInt10 ''0'' = Some 0"
  by (simp add: parseInt10_def isWhiteSpace_def isDigit_def digitValue_def Let_def)

lemma parseInt10_empty: "parseInt10 [] = None"
  by (simp add: parseInt10_def)

lemma parseInt10_minus_five: "parseInt10 ''-5'' = Some (- 5)"
  by (simp add: parseInt10_def isWhiteSpace_def isDigit_def digitValue_def Let_def)

text \<open>
  C8, as stated, fails: with the output size at \<open>800 \<times> 600\<close>, typing \<open>0\<close> into the
  width field, or emptying it, stores width 0, and typing \<open>-5\<close> into the height field
  stores height \<open>-5\<close>.
\<close>

theorem output_size_not_kept_positive:
  "map_option width (outputSize (handleWidthChange ''0''
      ((initial_app :: string app)\<lparr>outputSize := Some \<lparr>width = 800, height = 600\<rparr>\<rparr>))) = Some 0 \<and>
   map_option width (outputSize (handleWidthChange []
      ((initial_app :: string app)\<lparr>outputSize := Some \<lparr>width = 800, height = 600\<rparr>\<rparr>))) = Some 0 \<and>
   map_option height (outputSize (handleHeightChange ''-5''
      ((initial_app :: string app)\<lparr>outputSize := Some \<lparr>width = 800, height = 600\<rparr>\<rparr>))) = Some (- 5)"
  by (simp add: initial_app_def handleWidthChange_def handleHeightChange_def
      parseInt10_zero parseInt10_empty parseInt10_minus_five orZero_def)

text \<open>
  C8, amended. The output size is an integer pair or unset. A successful upload sets
  it to the dimensions read from the file. Editing the width (height) field stores
  \<open>parseInt(text, 10) || 0\<close> as the width (height) and leaves the other dimension as
  it is; while the size is unset the fields change nothing. Hence a positive size
  stays positive exactly when the stored integer is positive.
\<close>

theorem output_size_mutation:
  "(getImageDimensions file = Some d \<longrightarrow>
      outputSize (proceedWithImageUpload getImageDimensions file s) = Some d) \<and>
   (outputSize s = None \<longrightarrow> handleWidthChange v s = s \<and> handleHeightChange v s = s) \<and>
   (outputSize s = Some sz \<longrightarrow>
      outputSize (handleWidthChange v s) = Some \<lparr>width = orZero (parseInt10 v), height = height sz\<rparr> \<and>
      outputSize (handleHeightChange v s) = Some \<lparr>width = width sz, height = orZero (parseInt10 v)\<rparr>) \<and>
   (outputSize s = Some sz \<and> 0 < width sz \<and> 0 < height sz \<longrightarrow>
      ((\<exists>sz'. outputSize (handleWidthChange v s) = Some sz' \<and> 0 < width sz' \<and> 0 < height sz')
         \<longleftrightarrow> 0 < orZero (parseInt10 v)) \<and>
      ((\<exists>sz'. outputSize (handleHeightChange v s) = Some sz' \<and> 0 < width sz' \<and> 0 < height sz')
         \<longleftrightarrow> 0 < orZero (parseInt10 v)))"
proof (intro conjI impI)
  assume "getImageDimensions file = Some d"
  then show "outputSize (proceedWithImageUpload getImageDimensions file s) = Some d"
    by (simp add: proceedWithImageUpload_def clearMasks_def)
next
  assume "outputSize s = None"
  then show "handleWidthChange v s = s" by (simp add: handleWidthChange_def)
next
  assume "outputSize s = None"
  then show "handleHeightChange v s = s" by (simp add: handleHeightChange_def)
next
  assume "outputSize s = Some sz"
  then show "outputSize (handleWidthChange v s)
      = Some \<lparr>width = orZero (parseInt10 v), height = height sz\<rparr>"
    by (simp add: outputSize_handleWidthChange)
next
  assume "outputSize s = Some sz"
  then show "outputSize (handleHeightChange v s)
      = Some \<lparr>width = width sz, height = orZero (parseInt10 v)\<rparr>"
    by (simp add: outputSize_handleHeightChange)
next
  assume "outputSize s = Some sz \<and> 0 < width sz \<and> 0 < height sz"
  then show "(\<exists>sz'. outputSize (handleWidthChange v s) = Some sz' \<and> 0 < width sz' \<and> 0 < height sz')
         \<longleftrightarrow> 0 < orZero (parseInt10 v)"
    by (simp add: outputSize_handleWidthChange)
next
  assume "outputSize s = Some sz \<and> 0 < width sz \<and> 0 < height sz"
  then show "(\<exists>sz'. outputSize (handleHeightChange v s) = Some sz' \<and> 0 < width sz' \<and> 0 < height sz')
         \<longleftrightarrow> 0 < orZero (parseInt10 v)"
    by (simp add: outputSize_handleHeightChange)
qed

theorem output_size_mutation_witness:
  "outputSize ((initial_app :: string app)\<lparr>outputSize := Some \<lparr>width = 800, height = 600\<rparr>\<rparr>)
     = Some \<lparr>width = 800, height = 600\<rparr> \<and>
   (0::int) < width \<lparr>width = 800, height = 600\<rparr> \<and> (0::int) < height \<lparr>width = 800, height = 600\<rparr> \<and>
   (\<lambda>f. if f = ''photo'' then Some \<lparr>width = 640, height = 480\<rparr> else None) ''photo''
     = Some \<lparr>width = 640, height = 480\<rparr> \<and>
   outputSize (proceedWithImageUpload
     (\<lambda>f. if f = ''photo'' then Some \<lparr>width = 640, height = 480\<rparr> else None) ''photo''
     ((initial_app :: string app)\<lparr>outputSize := Some \<lparr>width = 800, height = 600\<rparr>\<rparr>))
     = Some \<lparr>width = 640, height = 480\<rparr> \<and>
   outputSize (handleWidthChange ''1024''
     ((initial_app :: string app)\<lparr>outputSize := Some \<lparr>width = 800, height = 600\<rparr>\<rparr>))
     = Some \<lparr>width = 1024, height = 600\<rparr> \<and>
   outputSize (handleHeightChange ''1024''
     ((initial_app :: string app)\<lparr>outputSize := Some \<lparr>width = 800, height = 600\<rparr>\<rparr>))
     = Some \<lparr>width = 800, height = 1024\<rparr> \<and>
   0 < orZero (parseInt10 ''1024'')"
  using output_size_mutation
    [of "\<lambda>f. if f = ''photo'' then Some \<lparr>width = 640, height = 480\<rparr> else None" "''photo''"
        "\<lparr>width = 640, height = 480\<rparr>"
        "(initial_app :: string app)\<lparr>outputSize := Some \<lparr>width = 800, height = 600\<rparr>\<rparr>"
        "''1024''" "\<lparr>width = 800, height = 600\<rparr>"]
  by (simp add: initial_app_def parseInt10_def isWhiteSpace_def isDigit_def digitValue_def
      orZero_def Let_def)

subsection \<open>Exporting a mask\<close>

declare isTrulyEmpty_from.simps [simp del]










end
